theory Spec2Isabelle
  imports Complex_Main "HOL-Library.Log_Nat"
begin

section \<open>home-ci-reporter: the report lifecycle and the artifact extraction\<close>

text \<open>
  A shallow embedding of \<^verbatim>\<open>main.go\<close>: the commands \<^verbatim>\<open>init\<close>, \<^verbatim>\<open>step\<close>,
  \<^verbatim>\<open>finalize\<close> and \<^verbatim>\<open>extract\<close>, the store functions \<^verbatim>\<open>readReport\<close> and
  \<^verbatim>\<open>writeReport\<close> they share, and the parts of the Go standard library and of
  \<^verbatim>\<open>yaml.v3\<close> that decide what they compute.
\<close>

subsection \<open>Go values\<close>

text \<open>
  A \<^verbatim>\<open>time.Time\<close> is the instant it denotes, in nanoseconds since the Unix epoch.
  The zero \<^verbatim>\<open>time.Time\<close> is 1 January of year 1, 00:00:00 UTC.
\<close>

type_synonym time = int

definition zero_time :: time where
  "zero_time = - 62135596800 * 1000000000"

text \<open>
  A Go slice is either \<^verbatim>\<open>nil\<close> (\<open>None\<close>) or holds a sequence of elements.
  \<^verbatim>\<open>len\<close>, \<^verbatim>\<open>range\<close> and \<^verbatim>\<open>append\<close> treat the nil slice as the empty one.
\<close>

type_synonym 'a slice = "'a list option"

definition elems :: "'a slice \<Rightarrow> 'a list" where
  "elems s = (case s of None \<Rightarrow> [] | Some xs \<Rightarrow> xs)"

definition len :: "'a slice \<Rightarrow> int" where
  "len s = int (length (elems s))"

definition append1 :: "'a slice \<Rightarrow> 'a \<Rightarrow> 'a slice" where
  "append1 s x = Some (elems s @ [x])"

subsection \<open>The document model\<close>

record TestStep =
  Phase :: string
  Status :: string
  Message :: string
  Timestamp :: time

record TestRunT =
  StartTime :: time
  Runner :: string
  ProjectName :: string

record EnvironmentT =
  OS :: string
  Arch :: string
  Shell :: string

record SummaryT =
  EndTime :: time
  Duration :: int
  TotalSteps :: int
  PassedSteps :: int
  FailedSteps :: int
  OverallStatus :: string
  SuccessRate :: string

text \<open>\<^verbatim>\<open>Summary\<close> is a pointer in the source: \<open>None\<close> is the nil pointer.\<close>

record TestReport =
  TestRun :: TestRunT
  Environment :: EnvironmentT
  Steps :: "TestStep slice"
  Summary :: "SummaryT option"

text \<open>The zero value of \<^verbatim>\<open>TestReport\<close>, as \<^verbatim>\<open>var report TestReport\<close> declares it.\<close>

definition zero_TestReport :: TestReport where
  "zero_TestReport =
     \<lparr>TestRun = \<lparr>StartTime = zero_time, Runner = [], ProjectName = []\<rparr>,
      Environment = \<lparr>OS = [], Arch = [], Shell = []\<rparr>,
      Steps = None,
      Summary = None\<rparr>"

subsection \<open>float64 arithmetic\<close>

text \<open>
  A finite \<^verbatim>\<open>float64\<close> is the rational number it denotes. Every arithmetic operation
  of the source returns the exact result rounded to the nearest number with a 53 bit
  significand, ties going to the even significand. All values of the program lie far
  inside the normal range, so neither overflow nor subnormal numbers are modelled.
\<close>

definition ilog2 :: "rat \<Rightarrow> int" where
  "ilog2 x = (case quotient_of x of (a, b) \<Rightarrow>
     (let e0 = bitlen a - bitlen b in if 2 powi e0 \<le> x then e0 else e0 - 1))"

definition round_half_even :: "rat \<Rightarrow> int" where
  "round_half_even x = (let f = \<lfloor>x\<rfloor>; r = x - of_int f in
     if r < 1 / 2 then f else if 1 / 2 < r then f + 1 else if even f then f else f + 1)"

definition float64 :: "rat \<Rightarrow> rat" where
  "float64 x = (if x = 0 then 0 else
     (let a = \<bar>x\<bar>; q = 2 powi (ilog2 a - 52)
      in sgn x * of_int (round_half_even (a / q)) * q))"

text \<open>The conversion \<^verbatim>\<open>float64(n)\<close> of an integer, and the operators on float64.\<close>

definition float64_of_int :: "int \<Rightarrow> rat" where
  "float64_of_int n = float64 (of_int n)"

definition fadd :: "rat \<Rightarrow> rat \<Rightarrow> rat" where
  "fadd x y = float64 (x + y)"

definition fmul :: "rat \<Rightarrow> rat \<Rightarrow> rat" where
  "fmul x y = float64 (x * y)"

text \<open>Division is only reached with a divisor other than zero.\<close>

definition fdiv :: "rat \<Rightarrow> rat \<Rightarrow> rat" where
  "fdiv x y = float64 (x / y)"

text \<open>The conversion \<^verbatim>\<open>int(f)\<close> drops the fraction: it truncates towards zero.\<close>

definition int_of_float64 :: "rat \<Rightarrow> int" where
  "int_of_float64 x = (if 0 \<le> x then \<lfloor>x\<rfloor> else \<lceil>x\<rceil>)"

text \<open>Decimal digits of a natural number, as \<^verbatim>\<open>fmt\<close> prints them.\<close>

fun decimal :: "nat \<Rightarrow> string" where
  "decimal n = (if n < 10 then [char_of (48 + n)]
                else decimal (n div 10) @ [char_of (48 + n mod 10)])"

declare decimal.simps [simp del]

text \<open>
  \<^verbatim>\<open>fmt.Sprintf("%.0f%%", y)\<close>: the exact value of \<open>y\<close> rounded to an integer, ties
  to even, printed in decimal and followed by a percent sign.
\<close>

definition Sprintf_0f_percent :: "rat \<Rightarrow> string" where
  "Sprintf_0f_percent y =
     (if y < 0 then ''-'' else []) @ decimal (nat (round_half_even \<bar>y\<bar>)) @ ''%''"

subsection \<open>Durations\<close>

text \<open>
  A \<^verbatim>\<open>time.Duration\<close> is a 64 bit count of nanoseconds. \<^verbatim>\<open>Time.Sub\<close> saturates at
  the least and the greatest duration.
\<close>

definition minDuration :: int where
  "minDuration = - (2 ^ 63)"

definition maxDuration :: int where
  "maxDuration = 2 ^ 63 - 1"

definition Sub :: "time \<Rightarrow> time \<Rightarrow> int" where
  "Sub t u = (let d = t - u in
     if d < minDuration then minDuration else if maxDuration < d then maxDuration else d)"

text \<open>Go's integer quotient truncates towards zero; the remainder has the dividend's sign.\<close>

definition quo :: "int \<Rightarrow> int \<Rightarrow> int" where
  "quo a b = sgn a * sgn b * (\<bar>a\<bar> div \<bar>b\<bar>)"

definition rem :: "int \<Rightarrow> int \<Rightarrow> int" where
  "rem a b = a - b * quo a b"

text \<open>
  \<^verbatim>\<open>Duration.Seconds\<close>:
  \<^verbatim>\<open>sec := d / Second; nsec := d % Second; return float64(sec) + float64(nsec)/1e9\<close>.
\<close>

definition Seconds :: "int \<Rightarrow> rat" where
  "Seconds d = (let sec = quo d 1000000000; nsec = rem d 1000000000
     in fadd (float64_of_int sec) (fdiv (float64_of_int nsec) 1000000000))"

subsection \<open>The summary computed by finalizeReport\<close>

text \<open>\<^verbatim>\<open>duration := int(endTime.Sub(report.TestRun.StartTime).Seconds())\<close>\<close>

definition duration :: "time \<Rightarrow> time \<Rightarrow> int" where
  "duration endTime startTime = int_of_float64 (Seconds (Sub endTime startTime))"

text \<open>
  The loop over \<^verbatim>\<open>report.Steps\<close>, with the two counters \<^verbatim>\<open>passedSteps\<close> and
  \<^verbatim>\<open>failedSteps\<close> as its state.
\<close>

fun tally :: "TestStep list \<Rightarrow> int \<times> int \<Rightarrow> int \<times> int" where
  "tally [] acc = acc"
| "tally (step # rest) (passedSteps, failedSteps) =
     tally rest
       (if Status step = ''passed'' then (passedSteps + 1, failedSteps)
        else if Status step = ''failed'' then (passedSteps, failedSteps + 1)
        else (passedSteps, failedSteps))"

definition overallStatus :: "int \<Rightarrow> string" where
  "overallStatus failedSteps = (if 0 < failedSteps then ''failed'' else ''passed'')"

definition successRate :: "int \<Rightarrow> int \<Rightarrow> string" where
  "successRate passedSteps totalSteps =
     (if 0 < totalSteps
      then Sprintf_0f_percent
             (fmul (fdiv (float64_of_int passedSteps) (float64_of_int totalSteps)) 100)
      else ''0%'')"

definition summarize :: "time \<Rightarrow> TestReport \<Rightarrow> SummaryT" where
  "summarize endTime report =
     (let totalSteps = len (Steps report);
          (passedSteps, failedSteps) = tally (elems (Steps report)) (0, 0)
      in \<lparr>EndTime = endTime,
          Duration = duration endTime (StartTime (TestRun report)),
          TotalSteps = totalSteps,
          PassedSteps = passedSteps,
          FailedSteps = failedSteps,
          OverallStatus = overallStatus failedSteps,
          SuccessRate = successRate passedSteps totalSteps\<rparr>)"

subsection \<open>Files, errors and the environment of one invocation\<close>

text \<open>
  The bytes of a file are a sequence of chunks in the order they were written. The text
  that the \<^verbatim>\<open>yaml.v3\<close> encoder produces for a report \<open>r\<close> is the chunk \<open>Enc r\<close>;
  \<open>EncPrefix r n\<close> is its first \<open>n\<close> bytes, left behind by a write that failed.
\<close>

datatype chunk = Lit string | Enc TestReport | EncPrefix TestReport nat

type_synonym content = "chunk list"

type_synonym files = "string \<rightharpoonup> content"

text \<open>The errors of the commands, named after the messages the source wraps them in.\<close>

datatype error =
    FailedToCreateDirectory
  | FailedToReadReportFile
  | FailedToParseYAML
  | FailedToCreateReportFile
  | FailedToWriteHeader
  | FailedToEncodeYAML
  | FailedToReadPayloadFile
  | FailedToParsePayloadJSON
  | FailedToCreateOutputDirectory
  | FailedToDecodeArtifact string
  | FailedToWriteArtifact string
  | IndexOutOfRange

text \<open>
  A failure of the operating system that the environment injects into one invocation.
  Every command returns at its first error, so one fault for each invocation is enough.
  \<open>FailWriteString n\<close>, \<open>FailEncode n\<close> and \<open>FailWriteFile p n\<close> fail after \<open>n\<close> bytes
  have reached the file.
\<close>

datatype fault =
    FailMkdirAll
  | FailReadFile
  | FailCreate
  | FailWriteString nat
  | FailEncode nat
  | FailOpenFile string
  | FailWriteFile string nat

record ArtifactContent =
  Content :: string

text \<open>
  \<^verbatim>\<open>Artifacts\<close> is a Go map: its entries are listed in the order in which the
  \<^verbatim>\<open>range\<close> loop of this invocation visits them.
\<close>

record GitHubPayload =
  Success :: bool
  Source :: string
  Branch :: string
  Commit :: string
  ArtifactName :: string
  Artifacts :: "(string \<times> ArtifactContent) list"

text \<open>
  What one invocation reads from outside the program: the clock, an injected fault, the
  result of \<^verbatim>\<open>os.Hostname\<close> (\<open>None\<close> when it fails), the environment variables,
  \<^verbatim>\<open>os.Args\<close>, and the two parsers on the texts that this theory does not interpret.
  \<open>runtime_GOOS\<close> and \<open>runtime_GOARCH\<close> are the identifiers of the platform the program
  runs on (\<^verbatim>\<open>runtime.GOOS\<close>, \<^verbatim>\<open>runtime.GOARCH\<close>); the source never reads them.
\<close>

record env =
  now :: time
  fault :: "fault option"
  hostname :: "string option"
  environ :: "string \<rightharpoonup> string"
  os_Args :: "string list"
  runtime_GOOS :: string
  runtime_GOARCH :: string
  yaml_other :: "content \<Rightarrow> TestReport option"
  json_Unmarshal :: "content \<Rightarrow> GitHubPayload option"

subsection \<open>yaml.v3 as the store uses it\<close>

definition newline :: char where
  "newline = CHR 0x0A"

definition header :: string where
  "header = ''# E2E Test Report'' @ [newline]"

text \<open>
  A text of comment lines and blank lines only: the flag tells whether the scan is
  inside a comment.
\<close>

fun comment_text :: "bool \<Rightarrow> string \<Rightarrow> bool" where
  "comment_text c [] = True"
| "comment_text c (x # xs) =
     (if x = newline then comment_text False xs
      else if c then comment_text True xs
      else if x = CHR ''#'' then comment_text True xs
      else if x = CHR '' '' then comment_text False xs
      else False)"

text \<open>
  The encoder writes a nil slice as the empty sequence \<^verbatim>\<open>[]\<close>, which loads as an
  empty slice that is not nil. Strings, integers, instants and the optional summary load
  as they were written.
\<close>

definition decoded :: "TestReport \<Rightarrow> TestReport" where
  "decoded r = r\<lparr>Steps := Some (elems (Steps r))\<rparr>"

text \<open>
  \<^verbatim>\<open>yaml.Unmarshal(data, &report)\<close> on a zero report, \<open>None\<close> for an error.
  A text without a document (empty, or comments only) is no error and leaves the report
  at its zero value. Comments followed by the complete encoding of a report load that
  report. The parser's result on any other text is the parameter \<open>other\<close>.
\<close>

fun yaml_Unmarshal :: "(content \<Rightarrow> TestReport option) \<Rightarrow> content \<Rightarrow> TestReport option" where
  "yaml_Unmarshal other [] = Some zero_TestReport"
| "yaml_Unmarshal other [Lit s] =
     (if comment_text False s then Some zero_TestReport else other [Lit s])"
| "yaml_Unmarshal other [Lit s, Enc r] =
     (if comment_text False s \<and> s \<noteq> [] \<and> last s = newline then Some (decoded r)
      else other [Lit s, Enc r])"
| "yaml_Unmarshal other c = other c"

subsection \<open>The store\<close>

definition readReport :: "env \<Rightarrow> string \<Rightarrow> files \<Rightarrow> error + TestReport" where
  "readReport e path fs =
     (if fault e = Some FailReadFile then Inl FailedToReadReportFile
      else case fs path of
        None \<Rightarrow> Inl FailedToReadReportFile
      | Some data \<Rightarrow>
          (case yaml_Unmarshal (yaml_other e) data of
             None \<Rightarrow> Inl FailedToParseYAML
           | Some report \<Rightarrow> Inr report))"

text \<open>
  \<^verbatim>\<open>os.Create\<close> truncates the file at \<open>path\<close> to length zero; the header and the
  encoded report are then written into it. The result is the new file system and the
  error returned.
\<close>

definition writeReport :: "env \<Rightarrow> string \<Rightarrow> TestReport \<Rightarrow> files \<Rightarrow> files \<times> error option" where
  "writeReport e path report fs =
     (if fault e = Some FailCreate then (fs, Some FailedToCreateReportFile)
      else let created = fs(path \<mapsto> []) in
        (case fault e of
           Some (FailWriteString n) \<Rightarrow>
             (created(path \<mapsto> [Lit (take n header)]), Some FailedToWriteHeader)
         | Some (FailEncode n) \<Rightarrow>
             (created(path \<mapsto> [Lit header, EncPrefix report n]), Some FailedToEncodeYAML)
         | _ \<Rightarrow> (created(path \<mapsto> [Lit header, Enc report]), None)))"

subsection \<open>The commands init, step and finalize\<close>

definition os_Getenv :: "env \<Rightarrow> string \<Rightarrow> string" where
  "os_Getenv e key = (case environ e key of None \<Rightarrow> [] | Some v \<Rightarrow> v)"

definition getEnvOrDefault :: "env \<Rightarrow> string \<Rightarrow> string \<Rightarrow> string" where
  "getEnvOrDefault e key defaultValue =
     (let v = os_Getenv e key in if v \<noteq> [] then v else defaultValue)"

text \<open>
  \<^verbatim>\<open>initReport\<close>: the error of \<^verbatim>\<open>os.Hostname\<close> is dropped, so a failure leaves
  the empty string. Indexing \<^verbatim>\<open>args\<close> or \<^verbatim>\<open>os.Args\<close> out of range panics.
\<close>

definition initReport :: "env \<Rightarrow> string list \<Rightarrow> files \<Rightarrow> files \<times> error option" where
  "initReport e args fs =
     (case args of
        [] \<Rightarrow> (fs, Some IndexOutOfRange)
      | reportPath # rest \<Rightarrow>
          (let projectName = (case rest of [] \<Rightarrow> [] | p # _ \<Rightarrow> p) in
           if fault e = Some FailMkdirAll then (fs, Some FailedToCreateDirectory)
           else
             (let host = (case hostname e of None \<Rightarrow> [] | Some h \<Rightarrow> h);
                  report = zero_TestReport\<lparr>Steps := Some []\<rparr>;
                  report = report\<lparr>TestRun :=
                     \<lparr>StartTime = now e, Runner = host,
                      ProjectName = (if projectName \<noteq> [] then projectName else [])\<rparr>\<rparr>
              in case os_Args e of
                   [] \<Rightarrow> (fs, Some IndexOutOfRange)
                 | arg0 # _ \<Rightarrow>
                     writeReport e reportPath
                       (report\<lparr>Environment :=
                          \<lparr>OS = getEnvOrDefault e ''GOOS'' ''unknown'',
                           Arch = getEnvOrDefault e ''GOARCH'' ''unknown'',
                           Shell = arg0\<rparr>\<rparr>) fs)))"

text \<open>\<^verbatim>\<open>addStep\<close>, with the global \<^verbatim>\<open>reportFile\<close> that the flag sets as a parameter.\<close>

definition addStep :: "env \<Rightarrow> string \<Rightarrow> string list \<Rightarrow> files \<Rightarrow> files \<times> error option" where
  "addStep e reportFile args fs =
     (case args of
        phase # status # message # _ \<Rightarrow>
          (case readReport e reportFile fs of
             Inl err \<Rightarrow> (fs, Some err)
           | Inr report \<Rightarrow>
               (let step = \<lparr>Phase = phase, Status = status, Message = message,
                            Timestamp = now e\<rparr>
                in writeReport e reportFile
                     (report\<lparr>Steps := append1 (Steps report) step\<rparr>) fs))
      | _ \<Rightarrow> (fs, Some IndexOutOfRange))"


subsection \<open>Sequences of step invocations\<close>



subsection \<open>base64 and file paths, as the standard library has them\<close>

text \<open>
  \<^verbatim>\<open>base64.StdEncoding\<close>: the alphabet \<^verbatim>\<open>A-Z a-z 0-9 + /\<close> with the padding
  character \<^verbatim>\<open>=\<close>.
\<close>

definition b64_index :: "char \<Rightarrow> nat option" where
  "b64_index c = (let n = (of_char c :: nat) in
     if 65 \<le> n \<and> n \<le> 90 then Some (n - 65)
     else if 97 \<le> n \<and> n \<le> 122 then Some (n - 71)
     else if 48 \<le> n \<and> n \<le> 57 then Some (n + 4)
     else if c = CHR ''+'' then Some 62
     else if c = CHR ''/'' then Some 63
     else None)"

text \<open>The three bytes of a group of four 6 bit values.\<close>

definition b64_bytes :: "nat \<Rightarrow> nat \<Rightarrow> nat \<Rightarrow> nat \<Rightarrow> string" where
  "b64_bytes x y z w = (let v = x * 262144 + y * 4096 + z * 64 + w in
     [char_of (v div 65536), char_of (v div 256 mod 256), char_of (v mod 256)])"

text \<open>
  The decoder reads groups of four characters. Only the last group may end in one or
  two padding characters, and nothing may follow a padded group. \<open>None\<close> is
  \<^verbatim>\<open>CorruptInputError\<close>.
\<close>

fun decode_quanta :: "string \<Rightarrow> string option" where
  "decode_quanta [] = Some []"
| "decode_quanta [a, b, c, d] =
     (case (b64_index a, b64_index b) of
        (Some x, Some y) \<Rightarrow>
          if c = CHR ''='' \<and> d = CHR ''='' then Some (take 1 (b64_bytes x y 0 0))
          else (case b64_index c of
                  None \<Rightarrow> None
                | Some z \<Rightarrow>
                    if d = CHR ''='' then Some (take 2 (b64_bytes x y z 0))
                    else (case b64_index d of
                            None \<Rightarrow> None
                          | Some w \<Rightarrow> Some (b64_bytes x y z w)))
      | _ \<Rightarrow> None)"
| "decode_quanta (a # b # c # d # rest) =
     (case (b64_index a, b64_index b, b64_index c, b64_index d) of
        (Some x, Some y, Some z, Some w) \<Rightarrow>
          (case decode_quanta rest of
             None \<Rightarrow> None
           | Some out \<Rightarrow> Some (b64_bytes x y z w @ out))
      | _ \<Rightarrow> None)"
| "decode_quanta _ = None"

text \<open>\<^verbatim>\<open>DecodeString\<close> ignores carriage returns and line feeds.\<close>

definition DecodeString :: "string \<Rightarrow> string option" where
  "DecodeString s = decode_quanta (filter (\<lambda>c. c \<noteq> CHR 0x0A \<and> c \<noteq> CHR 0x0D) s)"

text \<open>
  \<^verbatim>\<open>filepath.Clean\<close> on a system whose separator is the slash: empty and \<^verbatim>\<open>.\<close>
  elements are dropped, a \<^verbatim>\<open>..\<close> element removes the element before it, or is dropped
  at the root, or is kept at the start of a relative path.
\<close>

fun split_slash :: "string \<Rightarrow> string list" where
  "split_slash [] = [[]]"
| "split_slash (x # xs) =
     (if x = CHR ''/'' then [] # split_slash xs
      else (case split_slash xs of [] \<Rightarrow> [[x]] | w # ws \<Rightarrow> (x # w) # ws))"

fun clean_elems :: "bool \<Rightarrow> string list \<Rightarrow> string list \<Rightarrow> string list" where
  "clean_elems rooted out [] = rev out"
| "clean_elems rooted out (c # cs) =
     (if c = [] \<or> c = ''.'' then clean_elems rooted out cs
      else if c = ''..'' then
        (case out of
           [] \<Rightarrow> if rooted then clean_elems rooted out cs else clean_elems rooted [c] cs
         | prev # below \<Rightarrow>
             if prev = ''..'' then clean_elems rooted (c # out) cs
             else clean_elems rooted below cs)
      else clean_elems rooted (c # out) cs)"

fun join_slash :: "string list \<Rightarrow> string" where
  "join_slash [] = []"
| "join_slash [x] = x"
| "join_slash (x # xs) = x @ ''/'' @ join_slash xs"

definition filepath_Clean :: "string \<Rightarrow> string" where
  "filepath_Clean path =
     (if path = [] then ''.''
      else let rooted = (hd path = CHR ''/'');
               s = (if rooted then ''/'' else []) @
                   join_slash (clean_elems rooted [] (split_slash path))
           in if s = [] then ''.'' else s)"

text \<open>\<^verbatim>\<open>filepath.Join\<close> of two elements: empty elements in front are ignored.\<close>

definition filepath_Join :: "string \<Rightarrow> string \<Rightarrow> string" where
  "filepath_Join a b =
     (if a \<noteq> [] then filepath_Clean (a @ ''/'' @ b)
      else if b \<noteq> [] then filepath_Clean b
      else [])"

subsection \<open>The command extract\<close>

text \<open>The lines that \<^verbatim>\<open>extractArtifacts\<close> prints on the standard output.\<close>

datatype message = Extracting | Skipping string | Decoded string

text \<open>
  \<^verbatim>\<open>os.WriteFile\<close> creates or truncates the file and writes the data; the flag tells
  whether it failed.
\<close>

definition os_WriteFile :: "env \<Rightarrow> string \<Rightarrow> string \<Rightarrow> files \<Rightarrow> files \<times> bool" where
  "os_WriteFile e path data fs =
     (if fault e = Some (FailOpenFile path) then (fs, True)
      else case fault e of
        Some (FailWriteFile p n) \<Rightarrow>
          if p = path then (fs(path \<mapsto> [Lit (take n data)]), True)
          else (fs(path \<mapsto> [Lit data]), False)
      | _ \<Rightarrow> (fs(path \<mapsto> [Lit data]), False))"

text \<open>The condition under which the loop skips an artifact.\<close>

definition skipped :: "ArtifactContent \<Rightarrow> bool" where
  "skipped artifact = (Content artifact = [] \<or> Content artifact = ''null'')"

text \<open>
  The loop over \<^verbatim>\<open>payload.Artifacts\<close>; its state is the file system and the lines
  printed so far.
\<close>

fun extract_loop ::
  "env \<Rightarrow> string \<Rightarrow> (string \<times> ArtifactContent) list \<Rightarrow> files \<times> message list
     \<Rightarrow> (files \<times> message list) \<times> error option" where
  "extract_loop e outputDir [] st = (st, None)"
| "extract_loop e outputDir ((filename, artifact) # rest) (fs, out) =
     (if skipped artifact then extract_loop e outputDir rest (fs, out @ [Skipping filename])
      else case DecodeString (Content artifact) of
        None \<Rightarrow> ((fs, out), Some (FailedToDecodeArtifact filename))
      | Some content \<Rightarrow>
          (case os_WriteFile e (filepath_Join outputDir filename) content fs of
             (fs', True) \<Rightarrow> ((fs', out), Some (FailedToWriteArtifact filename))
           | (fs', False) \<Rightarrow> extract_loop e outputDir rest (fs', out @ [Decoded filename])))"

definition extractArtifacts ::
  "env \<Rightarrow> string list \<Rightarrow> files \<Rightarrow> (files \<times> message list) \<times> error option" where
  "extractArtifacts e args fs =
     (case args of
        payloadPath # outputDir # _ \<Rightarrow>
          if fault e = Some FailReadFile then ((fs, []), Some FailedToReadPayloadFile)
          else (case fs payloadPath of
            None \<Rightarrow> ((fs, []), Some FailedToReadPayloadFile)
          | Some data \<Rightarrow>
              (case json_Unmarshal e data of
                 None \<Rightarrow> ((fs, []), Some FailedToParsePayloadJSON)
               | Some payload \<Rightarrow>
                   if fault e = Some FailMkdirAll
                   then ((fs, []), Some FailedToCreateOutputDirectory)
                   else extract_loop e outputDir (Artifacts payload) (fs, [Extracting])))
      | _ \<Rightarrow> ((fs, []), Some IndexOutOfRange))"

subsection \<open>Example data\<close>

text \<open>An environment in which no operation fails and no variable is set.\<close>

definition plain_env :: env where
  "plain_env =
     \<lparr>now = 1700000000000000000, fault = None, hostname = Some ''runner-1'',
      environ = Map.empty, os_Args = [''/usr/local/bin/home-ci-reporter''],
      runtime_GOOS = ''linux'', runtime_GOARCH = ''amd64'',
      yaml_other = (\<lambda>c. None), json_Unmarshal = (\<lambda>c. None)\<rparr>"

text \<open>The report that \<^verbatim>\<open>init report.yaml proj\<close> creates in that environment.\<close>

definition fresh_report :: TestReport where
  "fresh_report =
     \<lparr>TestRun = \<lparr>StartTime = 1700000000000000000, Runner = ''runner-1'',
                  ProjectName = ''proj''\<rparr>,
      Environment = \<lparr>OS = ''unknown'', Arch = ''unknown'',
                      Shell = ''/usr/local/bin/home-ci-reporter''\<rparr>,
      Steps = Some [], Summary = None\<rparr>"

definition fresh_files :: files where
  "fresh_files = [''report.yaml'' \<mapsto> [Lit header, Enc fresh_report]]"

section \<open>Properties\<close>

subsection \<open>The tallies of the summary\<close>

lemma tally_count:
  "tally xs (p, f) =
     (p + int (length (filter (\<lambda>s. Status s = ''passed'') xs)),
      f + int (length (filter (\<lambda>s. Status s = ''failed'') xs)))"
  by (induction xs arbitrary: p f) auto

lemma summarize_fields:
  "summarize t r =
   \<lparr>EndTime = t, Duration = duration t (StartTime (TestRun r)),
    TotalSteps = int (length (elems (Steps r))),
    PassedSteps = int (length (filter (\<lambda>s. Status s = ''passed'') (elems (Steps r)))),
    FailedSteps = int (length (filter (\<lambda>s. Status s = ''failed'') (elems (Steps r)))),
    OverallStatus =
      overallStatus (int (length (filter (\<lambda>s. Status s = ''failed'') (elems (Steps r))))),
    SuccessRate =
      successRate (int (length (filter (\<lambda>s. Status s = ''passed'') (elems (Steps r)))))
        (int (length (elems (Steps r))))\<rparr>"
  by (simp add: summarize_def tally_count len_def Let_def)

text \<open>
  Claim C4. The summary that \<^verbatim>\<open>finalizeReport\<close> computes at time \<open>t\<close> from a loaded
  report \<open>r\<close> has the overall status \<^verbatim>\<open>failed\<close> exactly when some step has the status
  \<^verbatim>\<open>failed\<close>, and \<^verbatim>\<open>passed\<close> otherwise, whatever the other steps are. The passed and
  the failed steps are counted by comparing the status with the two strings, and the
  total is the number of all steps, those with another status included.
\<close>

theorem finalize_tallies:
  "OverallStatus (summarize t r) =
     (if \<exists>s \<in> set (elems (Steps r)). Status s = ''failed'' then ''failed'' else ''passed'')
   \<and> PassedSteps (summarize t r) =
       int (length (filter (\<lambda>s. Status s = ''passed'') (elems (Steps r))))
   \<and> FailedSteps (summarize t r) =
       int (length (filter (\<lambda>s. Status s = ''failed'') (elems (Steps r))))
   \<and> TotalSteps (summarize t r) = int (length (elems (Steps r)))"
  by (auto simp: summarize_fields overallStatus_def filter_empty_conv)

subsection \<open>The store and the commands on it\<close>

lemma header_comment: "comment_text False header" "header \<noteq> []" "last header = newline"
  by (simp_all add: header_def newline_def)

lemma unmarshal_saved: "yaml_Unmarshal other [Lit header, Enc r] = Some (decoded r)"
  by (simp add: header_comment)

lemma readReport_saved:
  "fault e \<noteq> Some FailReadFile \<Longrightarrow> fs p = Some [Lit header, Enc r] \<Longrightarrow> readReport e p fs = Inr (decoded r)"
  by (simp add: readReport_def header_comment)

lemma writeReport_success:
  "writeReport e p r fs = (fs', None) \<Longrightarrow> fs' = fs(p \<mapsto> [Lit header, Enc r])"
  by (auto simp: writeReport_def Let_def split: if_splits option.splits fault.splits)







lemma readReport_written:
  "fault e' \<noteq> Some FailReadFile \<Longrightarrow> readReport e' f (fs(f \<mapsto> [Lit header, Enc r])) = Inr (decoded r)"
  by (simp add: readReport_saved)


lemma initReport_success:
  assumes "snd (initReport e (path # rest) fs) = None"
  shows "\<exists>arg0 more. os_Args e = arg0 # more \<and>
     fst (initReport e (path # rest) fs) = fs(path \<mapsto> [Lit header, Enc
       \<lparr>TestRun = \<lparr>StartTime = now e,
                    Runner = (case hostname e of None \<Rightarrow> [] | Some h \<Rightarrow> h),
                    ProjectName = (case rest of [] \<Rightarrow> [] | p # _ \<Rightarrow> p)\<rparr>,
        Environment = \<lparr>OS = getEnvOrDefault e ''GOOS'' ''unknown'',
                        Arch = getEnvOrDefault e ''GOARCH'' ''unknown'',
                        Shell = arg0\<rparr>,
        Steps = Some [], Summary = None\<rparr>])"
proof -
  from assms obtain arg0 more where a: "os_Args e = arg0 # more"
    by (cases "os_Args e") (auto simp: initReport_def Let_def split: if_splits)
  from assms have nf: "fault e \<noteq> Some FailMkdirAll"
    by (auto simp: initReport_def Let_def split: if_splits)
  let ?r = "\<lparr>TestRun = \<lparr>StartTime = now e,
                    Runner = (case hostname e of None \<Rightarrow> [] | Some h \<Rightarrow> h),
                    ProjectName = (case rest of [] \<Rightarrow> [] | p # _ \<Rightarrow> p)\<rparr>,
        Environment = \<lparr>OS = getEnvOrDefault e ''GOOS'' ''unknown'',
                        Arch = getEnvOrDefault e ''GOARCH'' ''unknown'',
                        Shell = arg0\<rparr>,
        Steps = Some [], Summary = None\<rparr>"
  have eq: "initReport e (path # rest) fs = writeReport e path ?r fs"
    using a nf by (simp add: initReport_def Let_def zero_TestReport_def)
  with assms have "snd (writeReport e path ?r fs) = None" by simp
  then have "writeReport e path ?r fs = (fst (writeReport e path ?r fs), None)"
    by (simp add: prod_eq_iff)
  from writeReport_success[OF this] eq a show ?thesis by simp
qed







lemma plain_init:
  "initReport plain_env [''report.yaml'', ''proj''] Map.empty = (fresh_files, None)"
  by (simp add: initReport_def plain_env_def writeReport_def Let_def zero_TestReport_def
      getEnvOrDefault_def os_Getenv_def fresh_files_def fresh_report_def)

lemma read_fresh:
  "fault e \<noteq> Some FailReadFile \<Longrightarrow> readReport e ''report.yaml'' fresh_files = Inr fresh_report"
  by (simp add: fresh_files_def readReport_written decoded_def fresh_report_def elems_def)

lemma plain_fault: "fault plain_env = None"
  by (simp add: plain_env_def)








text \<open>
  Claim C1, at a failing input. The file \<^verbatim>\<open>report.yaml\<close> holds a complete report.
  \<^verbatim>\<open>writeReport\<close> has truncated it when the write of the header fails with nothing
  written: the error is returned, and the file is empty. It is neither the old document
  nor the new one, and loading it gives the zero report, so the run metadata of the old
  document is lost. The same holds for a \<^verbatim>\<open>step\<close> whose write fails.
\<close>

theorem failed_write_destroys_report:
  "writeReport (plain_env\<lparr>fault := Some (FailWriteString 0)\<rparr>) ''report.yaml'' report fresh_files
     = ([''report.yaml'' \<mapsto> [Lit []]], Some FailedToWriteHeader)
   \<and> addStep (plain_env\<lparr>fault := Some (FailWriteString 0)\<rparr>) ''report.yaml''
        [''build'', ''passed'', ''ok''] fresh_files
     = ([''report.yaml'' \<mapsto> [Lit []]], Some FailedToWriteHeader)
   \<and> fresh_files ''report.yaml'' = Some [Lit header, Enc fresh_report]
   \<and> readReport plain_env ''report.yaml'' fresh_files = Inr fresh_report
   \<and> readReport plain_env ''report.yaml'' [''report.yaml'' \<mapsto> [Lit []]] = Inr zero_TestReport
   \<and> fresh_report \<noteq> zero_TestReport"
proof -
  let ?e = "plain_env\<lparr>fault := Some (FailWriteString 0)\<rparr>"
  have w: "writeReport ?e ''report.yaml'' r fresh_files
     = ([''report.yaml'' \<mapsto> [Lit []]], Some FailedToWriteHeader)" for r
    by (simp add: writeReport_def fresh_files_def)
  have rd: "readReport ?e ''report.yaml'' fresh_files = Inr fresh_report"
    by (simp add: read_fresh)
  have "addStep ?e ''report.yaml'' [''build'', ''passed'', ''ok''] fresh_files
     = ([''report.yaml'' \<mapsto> [Lit []]], Some FailedToWriteHeader)"
    by (simp add: addStep_def rd w)
  moreover have "fresh_files ''report.yaml'' = Some [Lit header, Enc fresh_report]"
    by (simp add: fresh_files_def)
  moreover have "readReport plain_env ''report.yaml'' fresh_files = Inr fresh_report"
    by (simp add: read_fresh plain_fault)
  moreover have "readReport plain_env ''report.yaml'' [''report.yaml'' \<mapsto> [Lit []]]
      = Inr zero_TestReport"
    by (simp add: readReport_def plain_fault)
  moreover have "fresh_report \<noteq> zero_TestReport"
    by (simp add: fresh_report_def zero_TestReport_def)
  ultimately show ?thesis using w by simp
qed

text \<open>
  Claim C8 fails as it is stated: on a Linux platform of the amd64 architecture, with
  the variables \<^verbatim>\<open>GOOS\<close> and \<^verbatim>\<open>GOARCH\<close> not set, \<^verbatim>\<open>init\<close> records the operating
  system and the architecture \<^verbatim>\<open>unknown\<close>.
\<close>

theorem init_platform_counterexample:
  "initReport plain_env [''report.yaml'', ''proj''] Map.empty = (fresh_files, None)
   \<and> fresh_files ''report.yaml'' = Some [Lit header, Enc fresh_report]
   \<and> OS (Environment fresh_report) = ''unknown'' \<and> runtime_GOOS plain_env = ''linux''
   \<and> Arch (Environment fresh_report) = ''unknown'' \<and> runtime_GOARCH plain_env = ''amd64''
   \<and> OS (Environment fresh_report) \<noteq> runtime_GOOS plain_env
   \<and> Arch (Environment fresh_report) \<noteq> runtime_GOARCH plain_env"
  by (simp add: plain_init) (simp add: fresh_files_def fresh_report_def plain_env_def)

text \<open>
  Claim C8, amended. A successful \<^verbatim>\<open>init\<close> writes a report whose runner is the host
  name (empty when it cannot be read), whose operating system and architecture are the
  values of the environment variables \<^verbatim>\<open>GOOS\<close> and \<^verbatim>\<open>GOARCH\<close> where these are set
  and not empty and \<^verbatim>\<open>unknown\<close> otherwise, and whose shell is the first element of
  \<^verbatim>\<open>os.Args\<close>, the path of the program itself. The report has an empty sequence of
  steps and no summary.
\<close>

theorem init_creates_report:
  assumes "snd (initReport e (path # rest) fs) = None"
  shows "\<exists>r. fst (initReport e (path # rest) fs) path = Some [Lit header, Enc r]
           \<and> Runner (TestRun r) = (case hostname e of None \<Rightarrow> [] | Some h \<Rightarrow> h)
           \<and> OS (Environment r) =
               (case environ e ''GOOS'' of
                  None \<Rightarrow> ''unknown'' | Some v \<Rightarrow> if v = [] then ''unknown'' else v)
           \<and> Arch (Environment r) =
               (case environ e ''GOARCH'' of
                  None \<Rightarrow> ''unknown'' | Some v \<Rightarrow> if v = [] then ''unknown'' else v)
           \<and> os_Args e \<noteq> [] \<and> Shell (Environment r) = hd (os_Args e)
           \<and> Steps r = Some [] \<and> Summary r = None
           \<and> StartTime (TestRun r) = now e
           \<and> ProjectName (TestRun r) = (case rest of [] \<Rightarrow> [] | p # _ \<Rightarrow> p)"
proof -
  from initReport_success[OF assms] obtain arg0 others where
    a: "os_Args e = arg0 # others" and
    f: "fst (initReport e (path # rest) fs) = fs(path \<mapsto> [Lit header, Enc
       \<lparr>TestRun = \<lparr>StartTime = now e,
                    Runner = (case hostname e of None \<Rightarrow> [] | Some h \<Rightarrow> h),
                    ProjectName = (case rest of [] \<Rightarrow> [] | p # _ \<Rightarrow> p)\<rparr>,
        Environment = \<lparr>OS = getEnvOrDefault e ''GOOS'' ''unknown'',
                        Arch = getEnvOrDefault e ''GOARCH'' ''unknown'',
                        Shell = arg0\<rparr>,
        Steps = Some [], Summary = None\<rparr>])"
    by blast
  have g: "getEnvOrDefault e k d =
      (case environ e k of None \<Rightarrow> d | Some v \<Rightarrow> if v = [] then d else v)" for k d
    by (simp add: getEnvOrDefault_def os_Getenv_def Let_def split: option.splits)
  show ?thesis
    unfolding f by (simp add: a g)
qed

theorem init_creates_report_witness:
  "snd (initReport (plain_env\<lparr>environ := [''GOOS'' \<mapsto> ''darwin'']\<rparr>) [''report.yaml''] Map.empty) = None
   \<and> (\<exists>r. fst (initReport (plain_env\<lparr>environ := [''GOOS'' \<mapsto> ''darwin'']\<rparr>) [''report.yaml'']
               Map.empty) ''report.yaml'' = Some [Lit header, Enc r]
         \<and> Runner (TestRun r) = ''runner-1''
         \<and> OS (Environment r) = ''darwin'' \<and> Arch (Environment r) = ''unknown''
         \<and> Shell (Environment r) = ''/usr/local/bin/home-ci-reporter''
         \<and> Steps r = Some [] \<and> Summary r = None
         \<and> StartTime (TestRun r) = 1700000000000000000 \<and> ProjectName (TestRun r) = [])"
proof -
  let ?e = "plain_env\<lparr>environ := [''GOOS'' \<mapsto> ''darwin'']\<rparr>"
  have h: "snd (initReport ?e [''report.yaml''] Map.empty) = None"
    by (simp add: initReport_def plain_env_def writeReport_def Let_def)
  from init_creates_report[OF h] h show ?thesis
    by (simp add: plain_env_def)
qed

end
